theory Spec2Isabelle
  imports Main "HOL-Library.Char_ord" "HOL-Library.List_Lexorder" "HOL-Library.Multiset"
begin

section \<open>Strings as the script uses them\<close>

text \<open>
  The script \<^verbatim>\<open>utils/screenshot_capture.py\<close> only formats text, builds paths and calls
  the operating system. Strings are modelled as byte strings (\<^typ>\<open>string\<close>); the
  emoji that decorate the messages are written as their UTF-8 bytes. File names are taken
  to be ASCII: \<^verbatim>\<open>str.lower\<close> and \<^verbatim>\<open>str.title\<close> change the letters A-Z and a-z only.
\<close>

definition newline :: string where
  "newline = [CHR 0x0A]"

definition emoji_camera_flash :: string where
  "emoji_camera_flash = [CHR 0xF0, CHR 0x9F, CHR 0x93, CHR 0xB8]"

definition emoji_check :: string where
  "emoji_check = [CHR 0xE2, CHR 0x9C, CHR 0x85]"

definition emoji_cross :: string where
  "emoji_cross = [CHR 0xE2, CHR 0x9D, CHR 0x8C]"

definition emoji_clapper :: string where
  "emoji_clapper = [CHR 0xF0, CHR 0x9F, CHR 0x8E, CHR 0xAC]"

definition emoji_camera :: string where
  "emoji_camera = [CHR 0xF0, CHR 0x9F, CHR 0x93, CHR 0xB7]"

definition emoji_party :: string where
  "emoji_party = [CHR 0xF0, CHR 0x9F, CHR 0x8E, CHR 0x89]"

definition emoji_folder :: string where
  "emoji_folder = [CHR 0xF0, CHR 0x9F, CHR 0x93, CHR 0x81]"

definition emoji_clipboard :: string where
  "emoji_clipboard = [CHR 0xF0, CHR 0x9F, CHR 0x93, CHR 0x8B]"

definition bullet :: string where
  "bullet = [CHR 0xE2, CHR 0x80, CHR 0xA2]"

definition emoji_memo :: string where
  "emoji_memo = [CHR 0xF0, CHR 0x9F, CHR 0x93, CHR 0x9D]"

text \<open>Decimal rendering of a natural number, as \<^verbatim>\<open>str(n)\<close> and \<^verbatim>\<open>{n}\<close> in an f-string.\<close>

definition digit_char :: "nat \<Rightarrow> char" where
  "digit_char d = ''0123456789'' ! (d mod 10)"

fun dec :: "nat \<Rightarrow> string" where
  "dec n = (if n < 10 then [digit_char n] else dec (n div 10) @ [digit_char (n mod 10)])"

declare dec.simps [simp del]

text \<open>A number zero-padded to a minimum width, as the \<^verbatim>\<open>strftime\<close> fields are.\<close>

definition zero_pad :: "nat \<Rightarrow> nat \<Rightarrow> string" where
  "zero_pad w n = replicate (w - length (dec n)) CHR ''0'' @ dec n"

definition startswith :: "string \<Rightarrow> string \<Rightarrow> bool" where
  "startswith s p = (take (length p) s = p)"

definition endswith :: "string \<Rightarrow> string \<Rightarrow> bool" where
  "endswith s p = (length p \<le> length s \<and> drop (length s - length p) s = p)"

definition ascii_lower :: "char \<Rightarrow> char" where
  "ascii_lower c =
     (case map_of (zip ''ABCDEFGHIJKLMNOPQRSTUVWXYZ'' ''abcdefghijklmnopqrstuvwxyz'') c of
        Some d \<Rightarrow> d
      | None \<Rightarrow> c)"

definition ascii_upper :: "char \<Rightarrow> char" where
  "ascii_upper c =
     (case map_of (zip ''abcdefghijklmnopqrstuvwxyz'' ''ABCDEFGHIJKLMNOPQRSTUVWXYZ'') c of
        Some d \<Rightarrow> d
      | None \<Rightarrow> c)"

definition is_cased :: "char \<Rightarrow> bool" where
  "is_cased c = (c \<in> set ''ABCDEFGHIJKLMNOPQRSTUVWXYZabcdefghijklmnopqrstuvwxyz'')"

text \<open>\<^verbatim>\<open>str.lower()\<close>.\<close>

definition str_lower :: "string \<Rightarrow> string" where
  "str_lower s = map ascii_lower s"

text \<open>
  \<^verbatim>\<open>str.title()\<close>: a letter that follows a letter is lowered, any other letter is raised;
  the flag is whether the previous character was a letter.
\<close>

fun title_from :: "bool \<Rightarrow> string \<Rightarrow> string" where
  "title_from previous_is_cased [] = []"
| "title_from previous_is_cased (c # cs) =
     (if previous_is_cased then ascii_lower c else ascii_upper c) # title_from (is_cased c) cs"

definition str_title :: "string \<Rightarrow> string" where
  "str_title s = title_from False s"

text \<open>
  \<^verbatim>\<open>str.replace(old, new)\<close>: every occurrence of \<open>old\<close>, found from the left and not
  overlapping, is replaced. With an empty \<open>old\<close> Python puts \<open>new\<close> around every character.
\<close>

function str_replace :: "string \<Rightarrow> string \<Rightarrow> string \<Rightarrow> string" where
  "str_replace old new s =
     (if old = [] then new @ concat (map (\<lambda>c. c # new) s)
      else if s = [] then []
      else if take (length old) s = old then new @ str_replace old new (drop (length old) s)
      else hd s # str_replace old new (tl s))"
  by pat_completeness auto
termination
  by (relation "measure (\<lambda>(old, new, s). length s)") (auto simp: neq_Nil_conv)

declare str_replace.simps [simp del]

section \<open>Paths (posixpath)\<close>

text \<open>\<^verbatim>\<open>os.path.join(a, b)\<close> with two arguments.\<close>

definition os_path_join :: "string \<Rightarrow> string \<Rightarrow> string" where
  "os_path_join a b =
     (if startswith b ''/'' then b
      else if a = [] \<or> endswith a ''/'' then a @ b
      else a @ ''/'' @ b)"

text \<open>
  \<^verbatim>\<open>os.path.dirname(p)\<close>: everything up to and including the last slash, with the
  trailing slashes removed unless the head consists of slashes only.
\<close>

definition os_path_dirname :: "string \<Rightarrow> string" where
  "os_path_dirname p =
     (let head = rev (dropWhile (\<lambda>c. c \<noteq> CHR ''/'') (rev p))
      in if head \<noteq> [] \<and> head \<noteq> replicate (length head) CHR ''/''
         then rev (dropWhile (\<lambda>c. c = CHR ''/'') (rev head))
         else head)"

text \<open>\<^verbatim>\<open>os.path.basename(p)\<close>: everything after the last slash.\<close>

definition os_path_basename :: "string \<Rightarrow> string" where
  "os_path_basename p = rev (takeWhile (\<lambda>c. c \<noteq> CHR ''/'') (rev p))"

section \<open>The world the script runs in\<close>

text \<open>
  Exceptions that the calls of the script can raise. \<open>CalledProcessError\<close> and
  \<open>KeyboardInterrupt\<close> are the two classes named in the \<^verbatim>\<open>except\<close> clauses of
  \<^verbatim>\<open>take_screenshot\<close>; \<open>FileNotFoundError\<close> is what \<^verbatim>\<open>subprocess.run\<close> raises when
  the program to run does not exist, and what \<^verbatim>\<open>os.listdir\<close> raises on a missing
  directory; \<open>PermissionError\<close> when the program may not be executed; \<open>FileExistsError\<close>
  is raised by \<^verbatim>\<open>os.makedirs(..., exist_ok=True)\<close> when the path is a regular file;
  \<open>EOFError\<close> by \<^verbatim>\<open>input\<close> on a closed standard input. None of these classes is a
  subclass of another one in the list. A \<open>CalledProcessError\<close> carries its message,
  what \<^verbatim>\<open>str(e)\<close> gives.
\<close>

datatype exn =
    CalledProcessError string
  | KeyboardInterrupt
  | FileNotFoundError
  | PermissionError
  | FileExistsError
  | NotADirectoryError
  | EOFError

text \<open>What an outside call does: it returns a value or raises.\<close>

datatype 'a outcome = Returns 'a | Raises exn

text \<open>
  The file system is modelled at the one path the script creates and lists, the output
  directory: nothing is there, a regular file is there, or a directory with the names of
  its entries in the order \<^verbatim>\<open>os.listdir\<close> reports them.
\<close>

datatype node = Absent | RegularFile | Directory "string list"

text \<open>What the script does to the outside, in order.\<close>

datatype event =
    Print string
  | Input string
  | Run "string list"
  | Sleep nat

record world =
  output_dir :: node
  trace :: "event list"

definition emit :: "event \<Rightarrow> world \<Rightarrow> world" where
  "emit e w = w\<lparr>trace := trace w @ [e]\<rparr>"

definition print :: "string \<Rightarrow> world \<Rightarrow> world" where
  "print s w = emit (Print s) w"

text \<open>\<^verbatim>\<open>os.path.exists\<close> on the output directory's path.\<close>

definition os_path_exists :: "node \<Rightarrow> bool" where
  "os_path_exists n = (n \<noteq> Absent)"

text \<open>
  \<^verbatim>\<open>os.makedirs(path, exist_ok=True)\<close> on the output directory's path: the directory is
  created when nothing is there, a directory that is there is left as it is, and a
  regular file there raises \<open>FileExistsError\<close> (\<^verbatim>\<open>exist_ok\<close> only excuses a directory).
  The project root, the parent, is the directory above the one that holds the running
  script.
\<close>

definition os_makedirs :: "node \<Rightarrow> exn + node" where
  "os_makedirs n =
     (case n of
        Absent \<Rightarrow> Inr (Directory [])
      | RegularFile \<Rightarrow> Inl FileExistsError
      | Directory entries \<Rightarrow> Inr (Directory entries))"

text \<open>\<^verbatim>\<open>os.listdir\<close> on the output directory's path.\<close>

definition os_listdir :: "node \<Rightarrow> exn + string list" where
  "os_listdir n =
     (case n of
        Absent \<Rightarrow> Inl FileNotFoundError
      | RegularFile \<Rightarrow> Inl NotADirectoryError
      | Directory entries \<Rightarrow> Inr entries)"

section \<open>The script\<close>

text \<open>
  \<^verbatim>\<open>get_project_root\<close>: the parent of the directory of the script.
  \<open>script\<close> is \<^verbatim>\<open>os.path.abspath(__file__)\<close>.
\<close>

definition get_project_root :: "string \<Rightarrow> string" where
  "get_project_root script = os_path_dirname (os_path_dirname script)"

text \<open>\<^verbatim>\<open>create_screenshots_directory\<close>.\<close>

definition create_screenshots_directory :: "string \<Rightarrow> world \<Rightarrow> (exn + string) \<times> world" where
  "create_screenshots_directory script w =
     (let project_root = get_project_root script;
          screenshots_dir = os_path_join project_root ''WaveSimScreenshots''
      in case os_makedirs (output_dir w) of
           Inl e \<Rightarrow> (Inl e, w)
         | Inr n \<Rightarrow> (Inr screenshots_dir, w\<lparr>output_dir := n\<rparr>))"

text \<open>
  \<^verbatim>\<open>datetime.now()\<close> and \<^verbatim>\<open>strftime("%Y%m%d_%H%M%S_%f")\<close>: year to four digits,
  month, day, hour, minute and second to two, microsecond to six.
\<close>

record datetime =
  year :: nat
  month :: nat
  day :: nat
  hour :: nat
  minute :: nat
  second :: nat
  microsecond :: nat

definition strftime :: "datetime \<Rightarrow> string" where
  "strftime t =
     zero_pad 4 (year t) @ zero_pad 2 (month t) @ zero_pad 2 (day t) @ ''_'' @
     zero_pad 2 (hour t) @ zero_pad 2 (minute t) @ zero_pad 2 (second t) @ ''_'' @
     zero_pad 6 (microsecond t)"

text \<open>Line 30: the formatted time without its last three characters (\<^verbatim>\<open>[:-3]\<close>).\<close>

definition timestamp_of :: "datetime \<Rightarrow> string" where
  "timestamp_of t = take (length (strftime t) - 3) (strftime t)"

text \<open>
  What \<^verbatim>\<open>subprocess.run\<close> hands back when it returns: the exit status of the capture
  tool, and with it what \<^verbatim>\<open>os.path.exists(filepath)\<close> answers right after.
\<close>

record capture_result =
  returncode :: int
  file_exists :: bool

text \<open>
  What the outside does at one capture step: the operator at the prompt, the clock, the
  capture tool, and the one-second pause.
\<close>

record step_env =
  prompt :: "string outcome"
  now :: datetime
  capture :: "capture_result outcome"
  pause :: "unit outcome"

text \<open>
  A file that exists after the capture shows in the listing of the output directory when
  its name has no directory part.
\<close>

definition note_file :: "string \<Rightarrow> bool \<Rightarrow> world \<Rightarrow> world" where
  "note_file filename exists w =
     (case output_dir w of
        Directory entries \<Rightarrow>
          if exists \<and> CHR ''/'' \<notin> set filename \<and> filename \<notin> set entries
          then w\<lparr>output_dir := Directory (entries @ [filename])\<rparr>
          else w
      | _ \<Rightarrow> w)"

text \<open>
  \<^verbatim>\<open>take_screenshot(filename_prefix, description)\<close>. \<open>t\<close> is what \<^verbatim>\<open>datetime.now()\<close>
  returns and \<open>run\<close> what \<^verbatim>\<open>subprocess.run\<close> does. The directory is created before the
  \<^verbatim>\<open>try\<close>; the two \<^verbatim>\<open>except\<close> clauses catch \<open>CalledProcessError\<close> and
  \<open>KeyboardInterrupt\<close>, every other exception leaves the function.
\<close>

definition take_screenshot ::
  "string \<Rightarrow> string \<Rightarrow> string option \<Rightarrow> datetime \<Rightarrow> capture_result outcome \<Rightarrow> world
     \<Rightarrow> (exn + string option) \<times> world" where
  "take_screenshot script filename_prefix description t run w =
     (case create_screenshots_directory script w of
        (Inl e, w1) \<Rightarrow> (Inl e, w1)
      | (Inr screenshots_dir, w1) \<Rightarrow>
          (let timestamp = timestamp_of t;
               filename = filename_prefix @ ''_'' @ timestamp @ ''.png'';
               filepath = os_path_join screenshots_dir filename;
               w2 = print (newline @ emoji_camera_flash @ '' Taking screenshot: '' @
                      (case description of
                         None \<Rightarrow> ''WaveSim''
                       | Some d \<Rightarrow> if d = [] then ''WaveSim'' else d)) w1;
               w3 = print (''   Click and drag to select the area to capture, '' @
                      ''or press Space for fullscreen'') w2;
               w4 = emit (Run [''screencapture'', ''-i'', ''-x'', filepath]) w3
           in case run of
                Returns result \<Rightarrow>
                  (let w5 = note_file filename (file_exists result) w4
                   in if returncode result = 0 \<and> file_exists result
                      then (Inr (Some filepath),
                            print (emoji_check @ '' Screenshot saved: '' @ filename) w5)
                      else (Inr None,
                            print (emoji_cross @ '' Screenshot failed or cancelled'') w5))
              | Raises (CalledProcessError msg) \<Rightarrow>
                  (Inr None, print (emoji_cross @ '' Screenshot failed: '' @ msg) w4)
              | Raises KeyboardInterrupt \<Rightarrow>
                  (Inr None,
                   print (newline @ emoji_cross @ '' Screenshot cancelled by user'') w4)
              | Raises e \<Rightarrow> (Inl e, w4)))"

text \<open>The six (prefix, description) pairs of the guided sequence.\<close>

definition sequence :: "(string \<times> string) list" where
  "sequence =
     [(''initial'', ''Initial state: Clean interface with wave simulation ready''),
      (''wave_sources'',
       ''Wave sources: Show multiple wave sources creating interference patterns''),
      (''wave_propagation'',
       ''Wave propagation: Capture waves spreading across the simulation''),
      (''interference'',
       ''Interference patterns: Show complex wave interactions and interference''),
      (''wall_interaction'',
       ''Wall interactions: Demonstrate wave reflection and barriers''),
      (''controls_panel'',
       ''Controls panel: Show the UI with wave parameters and tools'')]"

type_synonym capture_record = "string \<times> string \<times> string"

text \<open>
  The \<^verbatim>\<open>for i, (prefix, description) in enumerate(sequence, 1)\<close> loop: \<open>i\<close> is the
  counter, \<open>len_sequence\<close> is \<^verbatim>\<open>len(sequence)\<close>, \<open>screenshots\<close> the list built so far.
  \<^verbatim>\<open>input\<close> and \<^verbatim>\<open>time.sleep\<close> stand outside every \<^verbatim>\<open>try\<close>: what they raise ends
  the loop. \<^verbatim>\<open>if filepath:\<close> is false for \<^verbatim>\<open>None\<close> and for the empty string.
\<close>

fun sequence_loop ::
  "string \<Rightarrow> (nat \<Rightarrow> step_env) \<Rightarrow> nat \<Rightarrow> nat \<Rightarrow> (string \<times> string) list
     \<Rightarrow> capture_record list \<Rightarrow> world \<Rightarrow> (exn + capture_record list) \<times> world" where
  "sequence_loop script env len_sequence i [] screenshots w = (Inr screenshots, w)"
| "sequence_loop script env len_sequence i ((prefix, description) # rest) screenshots w =
     (let w1 = print (newline @ emoji_camera @ '' Screenshot '' @ dec i @ ''/'' @ dec len_sequence @
                 '': '' @ description) w;
          w2 = emit (Input ''   Press Enter when ready to capture...'') w1
      in case prompt (env i) of
           Raises e \<Rightarrow> (Inl e, w2)
         | Returns line \<Rightarrow>
             (case take_screenshot script prefix (Some description) (now (env i))
                     (capture (env i)) w2 of
                (Inl e, w3) \<Rightarrow> (Inl e, w3)
              | (Inr filepath, w3) \<Rightarrow>
                  (let appended =
                         (case filepath of
                            None \<Rightarrow> (screenshots, print ''   Skipping this screenshot...'' w3)
                          | Some p \<Rightarrow>
                              if p = []
                              then (screenshots, print ''   Skipping this screenshot...'' w3)
                              else (screenshots @ [(prefix, p, description)], w3))
                   in if i < len_sequence
                      then (let w5 = emit (Sleep 1)
                                       (print ''   Prepare for next screenshot...'' (snd appended))
                            in case pause (env i) of
                                 Raises e \<Rightarrow> (Inl e, w5)
                               | Returns u \<Rightarrow>
                                   sequence_loop script env len_sequence (Suc i) rest (fst appended) w5)
                      else sequence_loop script env len_sequence (Suc i) rest (fst appended)
                             (snd appended))))"

declare sequence_loop.simps [simp del]

text \<open>The line of the final summary for one capture record.\<close>

definition summary_line :: "capture_record \<Rightarrow> string" where
  "summary_line r =
     (case r of (prefix, filepath, description) \<Rightarrow>
        ''  '' @ bullet @ '' '' @ os_path_basename filepath @ '' - '' @ description)"

text \<open>\<^verbatim>\<open>guided_screenshot_sequence\<close>.\<close>

definition guided_screenshot_sequence ::
  "string \<Rightarrow> (nat \<Rightarrow> step_env) \<Rightarrow> world \<Rightarrow> (exn + capture_record list) \<times> world" where
  "guided_screenshot_sequence script env w =
     (let w1 = print (emoji_clapper @ '' WaveSim Screenshot Sequence'') w;
          w2 = print (replicate 50 CHR ''='') w1;
          w3 = print (''This will guide you through capturing screenshots showing '' @
                 ''different wave simulation features.'') w2;
          w4 = print ''Make sure WaveSim is running and visible on your screen.'' w3;
          w5 = print [] w4
      in case sequence_loop script env (length sequence) 1 sequence [] w5 of
           (Inl e, w6) \<Rightarrow> (Inl e, w6)
         | (Inr screenshots, w6) \<Rightarrow>
             (let w7 = print (newline @ emoji_party @ '' Screenshot sequence complete!'') w6
              in case create_screenshots_directory script w7 of
                   (Inl e, w8) \<Rightarrow> (Inl e, w8)
                 | (Inr screenshots_dir, w8) \<Rightarrow>
                     (let w9 = print (emoji_folder @ '' Screenshots saved to: '' @
                                 screenshots_dir) w8
                      in if screenshots \<noteq> []
                         then (Inr screenshots,
                               foldl (\<lambda>w' r. print (summary_line r) w')
                                 (print (newline @ emoji_clipboard @ '' Captured screenshots:'') w9)
                                 screenshots)
                         else (Inr screenshots, w9))))"

text \<open>
  What the loop of \<^verbatim>\<open>update_readme_with_screenshots\<close> adds to the Markdown for one
  file name: the alternative text is made from the name by \<^verbatim>\<open>replace('.png', '')\<close>,
  \<^verbatim>\<open>replace('_', ' ')\<close> and \<^verbatim>\<open>title()\<close>.
\<close>

definition alt_text :: "string \<Rightarrow> string" where
  "alt_text filename =
     (let name_part = str_title (str_replace ''_'' '' '' (str_replace ''.png'' [] filename))
      in ''Wave Simulation - '' @ name_part)"

definition markdown_line :: "string \<Rightarrow> string" where
  "markdown_line filename =
     ''!['' @ alt_text filename @ ''](WaveSimScreenshots/'' @ filename @ '')'' @
     newline @ newline"

text \<open>The test of the listing loop: \<^verbatim>\<open>file.lower().endswith('.png')\<close>.\<close>

definition is_png :: "string \<Rightarrow> bool" where
  "is_png file = endswith (str_lower file) ''.png''"

text \<open>
  Lines 110 to 116 of the script: the names in the output directory that pass the test,
  sorted by \<^verbatim>\<open>list.sort()\<close>, which orders strings by their characters' codes.
\<close>

definition find_screenshot_files :: "node \<Rightarrow> exn + string list" where
  "find_screenshot_files n =
     (case (if os_path_exists n
            then (case os_listdir n of
                    Inl e \<Rightarrow> Inl e
                  | Inr files \<Rightarrow> Inr (filter is_png files))
            else Inr []) of
        Inl e \<Rightarrow> Inl e
      | Inr screenshot_files \<Rightarrow> Inr (sort screenshot_files))"

text \<open>\<^verbatim>\<open>update_readme_with_screenshots\<close>.\<close>

definition update_readme_with_screenshots :: "string \<Rightarrow> world \<Rightarrow> (exn + unit) \<times> world" where
  "update_readme_with_screenshots script w =
     (case create_screenshots_directory script w of
        (Inl e, w1) \<Rightarrow> (Inl e, w1)
      | (Inr screenshots_dir, w1) \<Rightarrow>
          (case find_screenshot_files (output_dir w1) of
             Inl e \<Rightarrow> (Inl e, w1)
           | Inr screenshot_files \<Rightarrow>
               if screenshot_files = []
               then (Inr (),
                     print (emoji_cross @
                       '' No screenshots found in WaveSimScreenshots directory'') w1)
               else (let w2 = print (newline @ emoji_memo @
                                '' Generating README markdown for '' @
                                dec (length screenshot_files) @ '' screenshots'') w1;
                         w3 = print (replicate 60 CHR ''='') w2;
                         markdown = foldl (\<lambda>markdown filename.
                                       markdown @ markdown_line filename)
                                     (''## Screenshots'' @ newline @ newline)
                                     screenshot_files;
                         w4 = print markdown w3;
                         w5 = print (replicate 60 CHR ''='') w4;
                         w6 = print (emoji_check @
                                '' Copy this markdown and paste it into your README.md file'')
                                w5
                     in (Inr (), w6))))"

text \<open>The lines of \<^verbatim>\<open>--help\<close>.\<close>

definition usage :: "string list" where
  "usage =
     [''WaveSim Screenshot Capture Utility'',
      ''Usage:'',
      ''  python3 screenshot_capture.py           # Take a single screenshot'',
      ''  python3 screenshot_capture.py --sequence # Guided screenshot sequence'',
      ''  python3 screenshot_capture.py --update-readme # Generate README markdown'',
      ''  python3 screenshot_capture.py --help    # Show this help'']"

text \<open>
  \<^verbatim>\<open>main\<close>, with \<open>argv\<close> for \<^verbatim>\<open>sys.argv\<close>. The results of the three modes are
  dropped. The single capture is the first capture step of the process.
\<close>

definition drop_result :: "(exn + 'a) \<times> world \<Rightarrow> (exn + unit) \<times> world" where
  "drop_result r = (case r of (Inl e, w) \<Rightarrow> (Inl e, w) | (Inr x, w) \<Rightarrow> (Inr (), w))"

definition main ::
  "string list \<Rightarrow> string \<Rightarrow> (nat \<Rightarrow> step_env) \<Rightarrow> world \<Rightarrow> (exn + unit) \<times> world" where
  "main argv script env w =
     (if length argv > 1
      then (if argv ! 1 = ''--sequence''
            then drop_result (guided_screenshot_sequence script env w)
            else if argv ! 1 = ''--update-readme''
            then update_readme_with_screenshots script w
            else if argv ! 1 = ''--help''
            then (Inr (), foldl (\<lambda>w' s. print s w') w usage)
            else (Inr (),
                  print ''Use --help for usage information''
                    (print (''Unknown option: '' @ argv ! 1) w)))
      else drop_result
             (take_screenshot script ''wave_sim'' None (now (env 1)) (capture (env 1)) w))"

text \<open>
  The exit status of the process. The script never calls \<^verbatim>\<open>sys.exit\<close>: the status is 0
  when \<^verbatim>\<open>main\<close> returns. When an exception leaves \<^verbatim>\<open>main\<close> the interpreter prints
  the traceback and exits with status 1; on an uncaught \<open>KeyboardInterrupt\<close> it ends
  through the interrupt signal, which a shell reports as 130.
\<close>

definition exit_status :: "string list \<Rightarrow> string \<Rightarrow> (nat \<Rightarrow> step_env) \<Rightarrow> world \<Rightarrow> int" where
  "exit_status argv script env w =
     (case fst (main argv script env w) of
        Inr u \<Rightarrow> 0
      | Inl KeyboardInterrupt \<Rightarrow> 130
      | Inl e \<Rightarrow> 1)"

section \<open>Notions used to state the properties\<close>

text \<open>The names in the output directory; none when the directory is not there.\<close>

definition listing :: "node \<Rightarrow> string list" where
  "listing n = (case n of Directory entries \<Rightarrow> entries | _ \<Rightarrow> [])"

text \<open>\<open>pat\<close> occurs somewhere in the string.\<close>

fun occurs :: "string \<Rightarrow> string \<Rightarrow> bool" where
  "occurs pat [] = (pat = [])"
| "occurs pat (c # cs) = (take (length pat) (c # cs) = pat \<or> occurs pat cs)"

text \<open>
  The alternative text as claim C10 words it: only the lower-case suffix \<^verbatim>\<open>.png\<close> is
  dropped from the file name, underscores become spaces, and the result is title-cased.
  It is compared below with \<open>alt_text\<close>, which is what the script computes.
\<close>

definition strip_png_suffix :: "string \<Rightarrow> string" where
  "strip_png_suffix filename =
     (if endswith filename ''.png''
      then take (length filename - length ''.png'') filename
      else filename)"

definition spec_alt_text :: "string \<Rightarrow> string" where
  "spec_alt_text filename =
     ''Wave Simulation - '' @ str_title (str_replace ''_'' '' '' (strip_png_suffix filename))"

text \<open>
  The fields of a \<^verbatim>\<open>datetime\<close> object are in these ranges (\<^verbatim>\<open>MINYEAR\<close> is 1 and
  \<^verbatim>\<open>MAXYEAR\<close> is 9999).
\<close>

definition datetime_valid :: "datetime \<Rightarrow> bool" where
  "datetime_valid t =
     (1 \<le> year t \<and> year t \<le> 9999 \<and> 1 \<le> month t \<and> month t \<le> 12 \<and>
      1 \<le> day t \<and> day t \<le> 31 \<and> hour t < 24 \<and> minute t < 60 \<and> second t < 60 \<and>
      microsecond t < 1000000)"

text \<open>
  The path that \<open>take_screenshot\<close> builds for a prefix at a time (lines 27 to 32), and
  the command it runs with it (lines 39 to 44).
\<close>

definition screenshot_path :: "string \<Rightarrow> string \<Rightarrow> datetime \<Rightarrow> string" where
  "screenshot_path script filename_prefix t =
     os_path_join (os_path_join (get_project_root script) ''WaveSimScreenshots'')
       (filename_prefix @ ''_'' @ timestamp_of t @ ''.png'')"

definition capture_command :: "string \<Rightarrow> string \<Rightarrow> datetime \<Rightarrow> string list" where
  "capture_command script filename_prefix t =
     [''screencapture'', ''-i'', ''-x'', screenshot_path script filename_prefix t]"

text \<open>The commands run so far, in order: the capture attempts in a trace.\<close>

fun runs :: "event list \<Rightarrow> string list list" where
  "runs [] = []"
| "runs (Run argv # evs) = argv # runs evs"
| "runs (e # evs) = runs evs"

text \<open>
  A capture succeeds when the tool returns status zero and the file exists afterwards.
\<close>

definition successful :: "capture_result outcome \<Rightarrow> bool" where
  "successful c =
     (case c of Returns result \<Rightarrow> returncode result = 0 \<and> file_exists result | Raises e \<Rightarrow> False)"

text \<open>
  What the capture call may do without an exception leaving \<open>take_screenshot\<close>: return,
  or raise one of the two exceptions that have an \<^verbatim>\<open>except\<close> clause.
\<close>

definition contained :: "capture_result outcome \<Rightarrow> bool" where
  "contained c =
     (case c of
        Returns result \<Rightarrow> True
      | Raises (CalledProcessError msg) \<Rightarrow> True
      | Raises KeyboardInterrupt \<Rightarrow> True
      | Raises e \<Rightarrow> False)"

definition returned :: "'a outcome \<Rightarrow> bool" where
  "returned c = (case c of Returns x \<Rightarrow> True | Raises e \<Rightarrow> False)"

text \<open>
  A capture step at which nothing escapes: the prompt and the pause return, and the
  capture call returns or raises what is caught.
\<close>

definition step_ok :: "step_env \<Rightarrow> bool" where
  "step_ok e = (returned (prompt e) \<and> contained (capture e) \<and> returned (pause e))"

text \<open>
  For the pairs of a list taken at the steps \<open>i\<close>, \<open>i + 1\<close>, ...: the commands of the
  capture attempts, and the records of the captures that succeed.
\<close>

fun attempts ::
  "string \<Rightarrow> (nat \<Rightarrow> step_env) \<Rightarrow> nat \<Rightarrow> (string \<times> string) list \<Rightarrow> string list list" where
  "attempts script env i [] = []"
| "attempts script env i ((prefix, description) # rest) =
     capture_command script prefix (now (env i)) # attempts script env (Suc i) rest"

fun kept ::
  "string \<Rightarrow> (nat \<Rightarrow> step_env) \<Rightarrow> nat \<Rightarrow> (string \<times> string) list \<Rightarrow> capture_record list" where
  "kept script env i [] = []"
| "kept script env i ((prefix, description) # rest) =
     (if successful (capture (env i))
      then (prefix, screenshot_path script prefix (now (env i)), description) #
           kept script env (Suc i) rest
      else kept script env (Suc i) rest)"

text \<open>Scenarios: a script location, a time, and what the outside does at each step.\<close>

definition script_location :: string where
  "script_location = ''/Users/dev/WaveSim/utils/screenshot_capture.py''"

definition morning :: datetime where
  "morning =
     \<lparr>year = 2024, month = 3, day = 7, hour = 9, minute = 5, second = 2, microsecond = 1234\<rparr>"

text \<open>The operator confirms every prompt; only the third and fifth captures are kept:
  the second is cancelled with a keyboard interrupt, the others fail.\<close>

definition mixed_session :: "nat \<Rightarrow> step_env" where
  "mixed_session i =
     \<lparr>prompt = Returns [],
      now = morning,
      capture =
        (if i = 2 then Raises KeyboardInterrupt
         else if i = 3 \<or> i = 5 then Returns \<lparr>returncode = 0, file_exists = True\<rparr>
         else if i = 4 then Returns \<lparr>returncode = 0, file_exists = False\<rparr>
         else Returns \<lparr>returncode = 1, file_exists = False\<rparr>),
      pause = Returns ()\<rparr>"

text \<open>The operator presses Ctrl-C at the first prompt of the guided sequence.\<close>

definition interrupt_at_prompt :: "nat \<Rightarrow> step_env" where
  "interrupt_at_prompt i =
     \<lparr>prompt = Raises KeyboardInterrupt,
      now = morning,
      capture = Returns \<lparr>returncode = 0, file_exists = True\<rparr>,
      pause = Returns ()\<rparr>"

section \<open>Properties\<close>

subsection \<open>The output directory\<close>

lemma get_project_root_example:
  "get_project_root ''/Users/dev/WaveSim/utils/screenshot_capture.py'' = ''/Users/dev/WaveSim''"
  by (simp add: get_project_root_def os_path_dirname_def)

lemma screenshots_dir_example:
  "os_path_join (get_project_root ''/Users/dev/WaveSim/utils/screenshot_capture.py'')
     ''WaveSimScreenshots'' = ''/Users/dev/WaveSim/WaveSimScreenshots''"
  by (simp add: get_project_root_example os_path_join_def startswith_def endswith_def)

text \<open>
  Claim C7. Creating the output directory is idempotent. When the path is not taken by a
  regular file, \<open>create_screenshots_directory\<close> returns the fixed path
  \<open>join (project root) WaveSimScreenshots\<close>; it creates an empty directory when nothing
  is there and leaves the world as it is when the directory is there; and a second call
  returns what the first returned and changes nothing more.
\<close>

theorem create_screenshots_directory_idempotent:
  "output_dir w \<noteq> RegularFile \<Longrightarrow>
     fst (create_screenshots_directory script w) =
       Inr (os_path_join (get_project_root script) ''WaveSimScreenshots'') \<and>
     snd (create_screenshots_directory script w) =
       (case output_dir w of Absent \<Rightarrow> w\<lparr>output_dir := Directory []\<rparr> | _ \<Rightarrow> w) \<and>
     create_screenshots_directory script (snd (create_screenshots_directory script w)) =
       create_screenshots_directory script w"
  by (cases "output_dir w") (simp_all add: create_screenshots_directory_def os_makedirs_def)

theorem create_screenshots_directory_idempotent_witness:
  "output_dir \<lparr>output_dir = Absent, trace = []\<rparr> \<noteq> RegularFile \<and>
   create_screenshots_directory ''/Users/dev/WaveSim/utils/screenshot_capture.py''
       \<lparr>output_dir = Absent, trace = []\<rparr> =
     (Inr ''/Users/dev/WaveSim/WaveSimScreenshots'', \<lparr>output_dir = Directory [], trace = []\<rparr>) \<and>
   create_screenshots_directory ''/Users/dev/WaveSim/utils/screenshot_capture.py''
       \<lparr>output_dir = Directory [], trace = []\<rparr> =
     (Inr ''/Users/dev/WaveSim/WaveSimScreenshots'', \<lparr>output_dir = Directory [], trace = []\<rparr>)"
proof -
  have h: "output_dir \<lparr>output_dir = Absent, trace = []\<rparr> \<noteq> RegularFile"
    by simp
  note t = create_screenshots_directory_idempotent
             [OF h, of "''/Users/dev/WaveSim/utils/screenshot_capture.py''"]
  have a: "create_screenshots_directory ''/Users/dev/WaveSim/utils/screenshot_capture.py''
             \<lparr>output_dir = Absent, trace = []\<rparr> =
           (Inr ''/Users/dev/WaveSim/WaveSimScreenshots'',
            \<lparr>output_dir = Directory [], trace = []\<rparr>)"
    using t [THEN conjunct1] t [THEN conjunct2, THEN conjunct1] screenshots_dir_example
    by (simp add: prod_eq_iff)
  have b: "create_screenshots_directory ''/Users/dev/WaveSim/utils/screenshot_capture.py''
             \<lparr>output_dir = Directory [], trace = []\<rparr> =
           (Inr ''/Users/dev/WaveSim/WaveSimScreenshots'',
            \<lparr>output_dir = Directory [], trace = []\<rparr>)"
    using t [THEN conjunct2, THEN conjunct2] a by simp
  show ?thesis using h a b by simp
qed

subsection \<open>Printing and the trace\<close>

lemma trace_print [simp]: "trace (print s w) = trace w @ [Print s]"
  by (simp add: print_def emit_def)

lemma output_dir_print [simp]: "output_dir (print s w) = output_dir w"
  by (simp add: print_def emit_def)

lemma trace_emit [simp]: "trace (emit e w) = trace w @ [e]"
  by (simp add: emit_def)

lemma output_dir_emit [simp]: "output_dir (emit e w) = output_dir w"
  by (simp add: emit_def)

lemma create_screenshots_directory_returns:
  "output_dir w \<noteq> RegularFile \<Longrightarrow>
     create_screenshots_directory script w =
       (Inr (os_path_join (get_project_root script) ''WaveSimScreenshots''),
        w\<lparr>output_dir := Directory (listing (output_dir w))\<rparr>)"
  by (cases "output_dir w")
     (simp_all add: create_screenshots_directory_def os_makedirs_def listing_def)

subsection \<open>Markdown generation\<close>

lemma find_screenshot_files_Directory:
  "find_screenshot_files (Directory entries) = Inr (sort (filter is_png entries))"
  by (simp add: find_screenshot_files_def os_path_exists_def os_listdir_def)

lemma foldl_markdown:
  "foldl (\<lambda>markdown filename. markdown @ markdown_line filename) acc files =
     acc @ concat (map markdown_line files)"
  by (induction files arbitrary: acc) simp_all

lemma update_readme_returns:
  assumes "output_dir w \<noteq> RegularFile"
  shows "fst (update_readme_with_screenshots script w) = Inr ()"
    and "output_dir (snd (update_readme_with_screenshots script w)) =
           Directory (listing (output_dir w))"
    and "trace (snd (update_readme_with_screenshots script w)) =
           trace w @
           (let screenshot_files = sort (filter is_png (listing (output_dir w)))
            in if screenshot_files = []
               then [Print (emoji_cross @
                       '' No screenshots found in WaveSimScreenshots directory'')]
               else [Print (newline @ emoji_memo @ '' Generating README markdown for '' @
                       dec (length screenshot_files) @ '' screenshots''),
                     Print (replicate 60 CHR ''=''),
                     Print (''## Screenshots'' @ newline @ newline @
                            concat (map markdown_line screenshot_files)),
                     Print (replicate 60 CHR ''=''),
                     Print (emoji_check @
                       '' Copy this markdown and paste it into your README.md file'')])"
  using assms
  by (simp_all add: update_readme_with_screenshots_def create_screenshots_directory_returns
        find_screenshot_files_Directory foldl_markdown Let_def)

lemma listed_example:
  "sort (filter is_png [''b.png'', ''notes.txt'', ''A.PNG'', ''a.png'']) =
     [''A.PNG'', ''a.png'', ''b.png'']"
  by code_simp

lemma markdown_example:
  "concat (map markdown_line [''A.PNG'', ''a.png'', ''b.png'']) =
     ''![Wave Simulation - A.Png](WaveSimScreenshots/A.PNG)'' @ newline @ newline @
     ''![Wave Simulation - A](WaveSimScreenshots/a.png)'' @ newline @ newline @
     ''![Wave Simulation - B](WaveSimScreenshots/b.png)'' @ newline @ newline"
  by code_simp

lemma dec_3: "dec 3 = ''3''"
  by code_simp

text \<open>
  Claim C3. Whatever is at the output directory's path (nothing, or a directory with any
  entries; a regular file there makes \<^verbatim>\<open>os.makedirs\<close> raise), the Markdown mode
  returns, and with \<open>screenshot_files\<close> the sorted list of the entries that pass the PNG
  test it prints: the "none found" notice and nothing else when the list is empty;
  otherwise the heading lines and one Markdown text, the title followed by one image line
  per file of the list in its order. The list is sorted (strings compared character by
  character) and holds exactly the entries that pass the test, each as often as listed.
\<close>

theorem update_readme_lists_sorted_png_files:
  "output_dir w \<noteq> RegularFile \<Longrightarrow>
     (let screenshot_files = sort (filter is_png (listing (output_dir w)))
      in fst (update_readme_with_screenshots script w) = Inr () \<and>
         trace (snd (update_readme_with_screenshots script w)) =
           trace w @
           (if screenshot_files = []
            then [Print (emoji_cross @
                    '' No screenshots found in WaveSimScreenshots directory'')]
            else [Print (newline @ emoji_memo @ '' Generating README markdown for '' @
                    dec (length screenshot_files) @ '' screenshots''),
                  Print (replicate 60 CHR ''=''),
                  Print (''## Screenshots'' @ newline @ newline @
                         concat (map markdown_line screenshot_files)),
                  Print (replicate 60 CHR ''=''),
                  Print (emoji_check @
                    '' Copy this markdown and paste it into your README.md file'')]) \<and>
         sorted screenshot_files \<and>
         mset screenshot_files = filter_mset is_png (mset (listing (output_dir w))))"
  using update_readme_returns(1,3) [of w script]
  by (simp add: Let_def)

theorem update_readme_lists_sorted_png_files_witness:
  "output_dir \<lparr>output_dir = Directory [''b.png'', ''notes.txt'', ''A.PNG'', ''a.png''],
                trace = []\<rparr> \<noteq> RegularFile \<and>
   fst (update_readme_with_screenshots ''/Users/dev/WaveSim/utils/screenshot_capture.py''
          \<lparr>output_dir = Directory [''b.png'', ''notes.txt'', ''A.PNG'', ''a.png''],
             trace = []\<rparr>) = Inr () \<and>
   trace (snd (update_readme_with_screenshots ''/Users/dev/WaveSim/utils/screenshot_capture.py''
                 \<lparr>output_dir = Directory [''b.png'', ''notes.txt'', ''A.PNG'', ''a.png''],
                    trace = []\<rparr>)) =
     [Print (newline @ emoji_memo @ '' Generating README markdown for 3 screenshots''),
      Print (replicate 60 CHR ''=''),
      Print (''## Screenshots'' @ newline @ newline @
             ''![Wave Simulation - A.Png](WaveSimScreenshots/A.PNG)'' @ newline @ newline @
             ''![Wave Simulation - A](WaveSimScreenshots/a.png)'' @ newline @ newline @
             ''![Wave Simulation - B](WaveSimScreenshots/b.png)'' @ newline @ newline),
      Print (replicate 60 CHR ''=''),
      Print (emoji_check @ '' Copy this markdown and paste it into your README.md file'')]"
proof -
  let ?w = "\<lparr>output_dir = Directory [''b.png'', ''notes.txt'', ''A.PNG'', ''a.png''],
             trace = []\<rparr>"
  have h: "output_dir ?w \<noteq> RegularFile"
    by simp
  have l: "listing (output_dir ?w) = [''b.png'', ''notes.txt'', ''A.PNG'', ''a.png'']"
    by (simp add: listing_def)
  have n: "length [''A.PNG'', ''a.png'', ''b.png''] = 3"
    by simp
  note t = update_readme_lists_sorted_png_files
             [OF h, of "''/Users/dev/WaveSim/utils/screenshot_capture.py''",
              unfolded Let_def l listed_example markdown_example n dec_3]
  from t have a: "fst (update_readme_with_screenshots
                         ''/Users/dev/WaveSim/utils/screenshot_capture.py'' ?w) = Inr ()"
    by (rule conjunct1)
  from t [THEN conjunct2, THEN conjunct1]
  have b: "trace (snd (update_readme_with_screenshots
                         ''/Users/dev/WaveSim/utils/screenshot_capture.py'' ?w)) =
     [Print (newline @ emoji_memo @ '' Generating README markdown for 3 screenshots''),
      Print (replicate 60 CHR ''=''),
      Print (''## Screenshots'' @ newline @ newline @
             ''![Wave Simulation - A.Png](WaveSimScreenshots/A.PNG)'' @ newline @ newline @
             ''![Wave Simulation - A](WaveSimScreenshots/a.png)'' @ newline @ newline @
             ''![Wave Simulation - B](WaveSimScreenshots/b.png)'' @ newline @ newline),
      Print (replicate 60 CHR ''=''),
      Print (emoji_check @ '' Copy this markdown and paste it into your README.md file'')]"
    by simp
  from h a b show ?thesis
    by (intro conjI)
qed

text \<open>
  Claim C9. The Markdown mode changes the file system although it only reads: the
  directory is created before it is listed. Unless a regular file is in the way, the
  existence test that follows the creation is true, the mode returns, and afterwards the
  output directory exists, empty when it was absent and with its entries otherwise.
\<close>

theorem update_readme_creates_output_dir:
  "output_dir w \<noteq> RegularFile \<Longrightarrow>
     os_path_exists (output_dir (snd (create_screenshots_directory script w))) \<and>
     fst (update_readme_with_screenshots script w) = Inr () \<and>
     output_dir (snd (update_readme_with_screenshots script w)) =
       Directory (listing (output_dir w)) \<and>
     os_path_exists (output_dir (snd (update_readme_with_screenshots script w)))"
  using update_readme_returns(1,2) [of w script]
  by (simp add: create_screenshots_directory_returns os_path_exists_def)

theorem update_readme_creates_output_dir_witness:
  "output_dir \<lparr>output_dir = Absent, trace = []\<rparr> \<noteq> RegularFile \<and>
   \<not> os_path_exists (output_dir \<lparr>output_dir = Absent, trace = []\<rparr>) \<and>
   fst (update_readme_with_screenshots ''/Users/dev/WaveSim/utils/screenshot_capture.py''
          \<lparr>output_dir = Absent, trace = []\<rparr>) = Inr () \<and>
   output_dir (snd (update_readme_with_screenshots
                      ''/Users/dev/WaveSim/utils/screenshot_capture.py''
                      \<lparr>output_dir = Absent, trace = []\<rparr>)) = Directory [] \<and>
   os_path_exists (output_dir (snd (update_readme_with_screenshots
                      ''/Users/dev/WaveSim/utils/screenshot_capture.py''
                      \<lparr>output_dir = Absent, trace = []\<rparr>)))"
proof -
  have h: "output_dir \<lparr>output_dir = Absent, trace = []\<rparr> \<noteq> RegularFile"
    by simp
  show ?thesis
    using h update_readme_creates_output_dir
              [OF h, of "''/Users/dev/WaveSim/utils/screenshot_capture.py''"]
    by (simp add: listing_def os_path_exists_def)
qed

subsection \<open>PNG detection and the alternative text\<close>

lemma str_replace_Nil: "old \<noteq> [] \<Longrightarrow> str_replace old new [] = []"
  by (subst str_replace.simps) simp

lemma str_replace_skip:
  "old \<noteq> [] \<Longrightarrow> take (length old) (c # cs) \<noteq> old \<Longrightarrow>
     str_replace old new (c # cs) = c # str_replace old new cs"
  by (subst str_replace.simps) simp

lemma str_replace_hit:
  "old \<noteq> [] \<Longrightarrow> str_replace old new (old @ s) = new @ str_replace old new s"
  by (subst str_replace.simps) simp

lemma str_replace_absent:
  "old \<noteq> [] \<Longrightarrow> \<not> occurs old s \<Longrightarrow> str_replace old new s = s"
proof (induction s)
  case Nil
  then show ?case by (simp add: str_replace_Nil)
next
  case (Cons c cs)
  then have "take (length old) (c # cs) \<noteq> old" and "\<not> occurs old cs"
    by simp_all
  with Cons show ?case
    by (simp add: str_replace_skip)
qed

lemma png_not_across:
  assumes "\<not> occurs ''.png'' (c # cs)"
  shows "take (length ''.png'') (c # cs @ ''.png'') \<noteq> ''.png''"
proof (cases cs)
  case Nil
  then show ?thesis by simp
next
  case (Cons a as)
  note c1 = this
  show ?thesis
  proof (cases as)
    case Nil
    with c1 show ?thesis by simp
  next
    case (Cons b bs)
    note c2 = this
    show ?thesis
    proof (cases bs)
      case Nil
      with c1 c2 show ?thesis by simp
    next
      case (Cons d ds)
      with c1 c2 assms show ?thesis by simp
    qed
  qed
qed

lemma str_replace_png_suffix:
  "\<not> occurs ''.png'' stem \<Longrightarrow> str_replace ''.png'' [] (stem @ ''.png'') = stem"
proof (induction stem)
  case Nil
  have "str_replace ''.png'' [] (''.png'' @ []) = [] @ str_replace ''.png'' [] []"
    by (rule str_replace_hit) simp
  then show ?case
    by (simp add: str_replace_Nil)
next
  case (Cons c cs)
  from Cons.prems have "take (length ''.png'') (c # cs @ ''.png'') \<noteq> ''.png''"
    by (rule png_not_across)
  then have "str_replace ''.png'' [] (c # cs @ ''.png'') =
               c # str_replace ''.png'' [] (cs @ ''.png'')"
    by (intro str_replace_skip) simp_all
  moreover from Cons.prems have "\<not> occurs ''.png'' cs"
    by simp
  ultimately show ?case
    using Cons.IH by simp
qed

lemma endswith_decompose:
  "endswith s p \<Longrightarrow> s = take (length s - length p) s @ p"
  by (metis append_take_drop_id endswith_def)

lemma alt_text_as_spec:
  assumes "\<not> occurs ''.png'' (strip_png_suffix f)"
  shows "alt_text f = spec_alt_text f"
proof (cases "endswith f ''.png''")
  case True
  define stem where "stem = take (length f - length ''.png'') f"
  from True have f: "f = stem @ ''.png''"
    unfolding stem_def by (rule endswith_decompose)
  from True assms have "\<not> occurs ''.png'' stem"
    unfolding strip_png_suffix_def stem_def by simp
  then have "str_replace ''.png'' [] (stem @ ''.png'') = stem"
    by (rule str_replace_png_suffix)
  moreover from True have "strip_png_suffix f = stem"
    unfolding strip_png_suffix_def stem_def by simp
  ultimately have "str_replace ''.png'' [] f = strip_png_suffix f"
    using f by simp
  then show ?thesis
    by (simp add: alt_text_def spec_alt_text_def)
next
  case False
  with assms have "\<not> occurs ''.png'' f"
    by (simp add: strip_png_suffix_def)
  then have "str_replace ''.png'' [] f = f"
    by (simp add: str_replace_absent)
  with False show ?thesis
    by (simp add: alt_text_def spec_alt_text_def strip_png_suffix_def)
qed

text \<open>
  Claim C10 as stated fails: \<^verbatim>\<open>replace('.png', '')\<close> deletes every occurrence of
  \<^verbatim>\<open>.png\<close>, not only a suffix. The file \<^verbatim>\<open>shot.png.png\<close> is listed, and its alternative
  text is \<^verbatim>\<open>Shot\<close> where dropping the suffix alone would give \<^verbatim>\<open>Shot.Png\<close>.
\<close>

theorem alt_text_removes_every_png_counterexample:
  "is_png ''shot.png.png'' \<and>
   alt_text ''shot.png.png'' = ''Wave Simulation - Shot'' \<and>
   spec_alt_text ''shot.png.png'' = ''Wave Simulation - Shot.Png'' \<and>
   alt_text ''shot.png.png'' \<noteq> spec_alt_text ''shot.png.png''"
  by code_simp

text \<open>
  Claim C10, amended. A name is listed exactly when, lower-cased, it ends with
  \<^verbatim>\<open>.png\<close>. The alternative text is made from the original name by deleting every
  occurrence of the lower-case \<^verbatim>\<open>.png\<close>, replacing underscores with spaces and
  title-casing. When \<^verbatim>\<open>.png\<close> occurs nowhere in the name apart from such a suffix, this
  is the text of the claim: the suffix alone is dropped, and a name with an upper-case
  extension keeps it.
\<close>

theorem png_detection_and_alt_text:
  "find_screenshot_files (Directory entries) =
     Inr (sort (filter (\<lambda>file. endswith (str_lower file) ''.png'') entries)) \<and>
   alt_text filename =
     ''Wave Simulation - '' @
     str_title (str_replace ''_'' '' '' (str_replace ''.png'' [] filename)) \<and>
   (\<not> occurs ''.png'' (strip_png_suffix filename) \<longrightarrow>
      alt_text filename = spec_alt_text filename)"
proof (intro conjI impI)
  have "is_png = (\<lambda>file. endswith (str_lower file) ''.png'')"
    by (rule ext) (simp add: is_png_def)
  then show "find_screenshot_files (Directory entries) =
               Inr (sort (filter (\<lambda>file. endswith (str_lower file) ''.png'') entries))"
    by (simp add: find_screenshot_files_Directory)
  show "alt_text filename =
          ''Wave Simulation - '' @
          str_title (str_replace ''_'' '' '' (str_replace ''.png'' [] filename))"
    by (simp add: alt_text_def)
  show "alt_text filename = spec_alt_text filename"
    if "\<not> occurs ''.png'' (strip_png_suffix filename)"
    using that by (rule alt_text_as_spec)
qed

lemma upper_case_example:
  "sort (filter (\<lambda>file. endswith (str_lower file) ''.png'') [''notes.txt'', ''Wave_Sim.PNG'']) =
     [''Wave_Sim.PNG'']"
  by code_simp

lemma upper_case_alt: "spec_alt_text ''Wave_Sim.PNG'' = ''Wave Simulation - Wave Sim.Png''"
  by code_simp

lemma upper_case_occurs: "\<not> occurs ''.png'' (strip_png_suffix ''Wave_Sim.PNG'')"
  by code_simp

theorem png_detection_and_alt_text_witness:
  "\<not> occurs ''.png'' (strip_png_suffix ''Wave_Sim.PNG'') \<and>
   find_screenshot_files (Directory [''notes.txt'', ''Wave_Sim.PNG'']) = Inr [''Wave_Sim.PNG''] \<and>
   alt_text ''Wave_Sim.PNG'' = ''Wave Simulation - Wave Sim.Png''"
proof -
  note t = png_detection_and_alt_text
             [of "[''notes.txt'', ''Wave_Sim.PNG'']" "''Wave_Sim.PNG''",
              unfolded upper_case_example]
  from t have a: "find_screenshot_files (Directory [''notes.txt'', ''Wave_Sim.PNG'']) =
                    Inr [''Wave_Sim.PNG'']"
    by (rule conjunct1)
  from t [THEN conjunct2, THEN conjunct2] upper_case_occurs
  have "alt_text ''Wave_Sim.PNG'' = spec_alt_text ''Wave_Sim.PNG''"
    by (rule mp)
  then have b: "alt_text ''Wave_Sim.PNG'' = ''Wave Simulation - Wave Sim.Png''"
    by (simp only: upper_case_alt)
  from upper_case_occurs a b show ?thesis
    by (intro conjI)
qed

subsection \<open>Decimal fields and the timestamp\<close>

lemma digit_char_in: "digit_char d \<in> set ''0123456789''"
proof -
  have "d mod 10 < length ''0123456789''"
    by simp
  then show ?thesis
    unfolding digit_char_def by (rule nth_mem)
qed

lemma set_dec: "set (dec n) \<subseteq> set ''0123456789''"
proof (induction n rule: dec.induct)
  case (1 n)
  show ?case
  proof (cases "n < 10")
    case True
    then have "dec n = [digit_char n]"
      by (simp add: dec.simps)
    then show ?thesis
      using digit_char_in [of n] by simp
  next
    case False
    then have "dec n = dec (n div 10) @ [digit_char (n mod 10)]"
      by (subst dec.simps) simp
    with False "1" show ?thesis
      using digit_char_in [of "n mod 10"] by simp
  qed
qed

lemma set_zero_pad: "set (zero_pad w n) \<subseteq> set ''0123456789''"
  using set_dec [of n] by (auto simp: zero_pad_def)

lemma dec_nonempty: "dec n \<noteq> []"
  by (subst dec.simps) simp

lemma length_dec_le: "0 < w \<Longrightarrow> n < 10 ^ w \<Longrightarrow> length (dec n) \<le> w"
proof (induction w arbitrary: n)
  case 0
  then show ?case by simp
next
  case (Suc w)
  show ?case
  proof (cases "n < 10")
    case True
    then show ?thesis by (simp add: dec.simps)
  next
    case False
    with Suc.prems have w: "0 < w"
      by (cases w) simp_all
    from Suc.prems have "n div 10 < 10 ^ w"
      by (simp add: less_mult_imp_div_less mult.commute)
    with w have "length (dec (n div 10)) \<le> w"
      by (rule Suc.IH)
    moreover from False have "dec n = dec (n div 10) @ [digit_char (n mod 10)]"
      by (subst dec.simps) simp
    ultimately show ?thesis by simp
  qed
qed

lemma length_zero_pad: "0 < w \<Longrightarrow> n < 10 ^ w \<Longrightarrow> length (zero_pad w n) = w"
  using length_dec_le [of w n] by (simp add: zero_pad_def)

lemma dec_0: "dec 0 = ''0''"
  by (simp add: dec.simps digit_char_def)

lemma zero_pad_step:
  assumes "0 < w"
  shows "zero_pad (Suc w) n = zero_pad w (n div 10) @ [digit_char (n mod 10)]"
proof (cases "n < 10")
  case True
  then have "dec n = [digit_char n]"
    by (simp add: dec.simps)
  moreover from True have "n div 10 = 0" and "n mod 10 = n"
    by simp_all
  moreover from assms have "replicate (w - Suc 0) CHR ''0'' @ ''0'' = replicate w CHR ''0''"
    by (cases w) (simp_all add: replicate_append_same)
  ultimately show ?thesis
    by (simp add: zero_pad_def dec_0)
next
  case False
  then have "dec n = dec (n div 10) @ [digit_char (n mod 10)]"
    by (subst dec.simps) simp
  then show ?thesis
    by (simp add: zero_pad_def)
qed

lemma zero_pad_6:
  "zero_pad 6 n =
     zero_pad 3 (n div 1000) @
     [digit_char (n div 100 mod 10), digit_char (n div 10 mod 10), digit_char (n mod 10)]"
proof -
  have a: "zero_pad 6 n = zero_pad 5 (n div 10) @ [digit_char (n mod 10)]"
    using zero_pad_step [of 5 n] by simp
  have b: "zero_pad 5 (n div 10) = zero_pad 4 (n div 100) @ [digit_char (n div 10 mod 10)]"
    using zero_pad_step [of 4 "n div 10"] by (simp add: div_mult2_eq [symmetric])
  have c: "zero_pad 4 (n div 100) = zero_pad 3 (n div 1000) @ [digit_char (n div 100 mod 10)]"
    using zero_pad_step [of 3 "n div 100"] by (simp add: div_mult2_eq [symmetric])
  show ?thesis
    by (simp add: a b c)
qed

lemma timestamp_of_fields:
  "timestamp_of t =
     zero_pad 4 (year t) @ zero_pad 2 (month t) @ zero_pad 2 (day t) @ ''_'' @
     zero_pad 2 (hour t) @ zero_pad 2 (minute t) @ zero_pad 2 (second t) @ ''_'' @
     zero_pad 3 (microsecond t div 1000)"
  by (simp add: timestamp_of_def strftime_def zero_pad_6)

lemma length_timestamp_of:
  assumes "datetime_valid t"
  shows "length (timestamp_of t) = 19"
proof -
  from assms have "length (zero_pad 4 (year t)) = 4" "length (zero_pad 2 (month t)) = 2"
    "length (zero_pad 2 (day t)) = 2" "length (zero_pad 2 (hour t)) = 2"
    "length (zero_pad 2 (minute t)) = 2" "length (zero_pad 2 (second t)) = 2"
    by (simp_all add: datetime_valid_def length_zero_pad)
  moreover from assms have "microsecond t div 1000 < 10 ^ 3"
    by (simp add: datetime_valid_def) arith
  then have "length (zero_pad 3 (microsecond t div 1000)) = 3"
    by (simp add: length_zero_pad)
  ultimately show ?thesis
    by (simp add: timestamp_of_fields)
qed

lemma slash_not_digit: "CHR ''/'' \<notin> set (zero_pad w n)"
  using set_zero_pad [of w n] by auto

lemma slash_not_in_timestamp: "CHR ''/'' \<notin> set (timestamp_of t)"
  by (simp add: timestamp_of_fields slash_not_digit)

lemma set_zero_pad_underscore: "set (zero_pad w n) \<subseteq> set ''0123456789_''"
  using set_zero_pad [of w n] by (rule subset_trans) (simp add: subset_iff)

lemma set_timestamp_of: "set (timestamp_of t) \<subseteq> set ''0123456789_''"
proof -
  have u: "set ''_'' \<subseteq> set ''0123456789_''"
    by simp
  show ?thesis
    unfolding timestamp_of_fields set_append
    by (intro Un_least set_zero_pad_underscore u)
qed

subsection \<open>Paths\<close>

lemma screenshots_dir_shape:
  "\<exists>x. os_path_join root ''WaveSimScreenshots'' = x @ ''WaveSimScreenshots''"
  by (simp add: os_path_join_def startswith_def)

lemma screenshots_dir_nonempty: "os_path_join root ''WaveSimScreenshots'' \<noteq> []"
  using screenshots_dir_shape [of root] by auto

lemma screenshots_dir_last: "last (os_path_join root ''WaveSimScreenshots'') = CHR ''s''"
  using screenshots_dir_shape [of root] by auto

lemma os_path_join_inside:
  assumes "d \<noteq> []" and "last d \<noteq> CHR ''/''" and "CHR ''/'' \<notin> set name"
  shows "os_path_join d name = d @ ''/'' @ name"
proof -
  from assms(3) have "\<not> startswith name ''/''"
    by (cases name) (auto simp: startswith_def)
  moreover from assms(1,2) have "\<not> endswith d ''/''"
    by (cases d rule: rev_cases) (simp_all add: endswith_def)
  ultimately show ?thesis
    using assms(1) by (simp add: os_path_join_def)
qed

lemma os_path_basename_inside:
  assumes "CHR ''/'' \<notin> set name"
  shows "os_path_basename (d @ ''/'' @ name) = name"
proof -
  from assms have "takeWhile (\<lambda>c. c \<noteq> CHR ''/'') (rev name @ CHR ''/'' # rev d) = rev name"
    by (subst takeWhile_append2) auto
  then show ?thesis
    by (simp add: os_path_basename_def)
qed

lemma os_path_dirname_inside:
  assumes "d \<noteq> []" and "last d \<noteq> CHR ''/''" and "CHR ''/'' \<notin> set name"
  shows "os_path_dirname (d @ ''/'' @ name) = d"
proof -
  from assms(3) have "dropWhile (\<lambda>c. c \<noteq> CHR ''/'') (rev name @ CHR ''/'' # rev d) =
                       CHR ''/'' # rev d"
    by (subst dropWhile_append2) auto
  then have head: "rev (dropWhile (\<lambda>c. c \<noteq> CHR ''/'') (rev (d @ ''/'' @ name))) = d @ ''/''"
    by simp
  from assms(1,2) have "last d \<in> set d"
    by simp
  with assms(2) have "d @ ''/'' \<noteq> replicate (length (d @ ''/'')) CHR ''/''"
    by (metis Un_iff in_set_replicate set_append)
  moreover from assms(1,2) have "dropWhile (\<lambda>c. c = CHR ''/'') (rev d) = rev d"
    by (cases d rule: rev_cases) simp_all
  ultimately show ?thesis
    unfolding os_path_dirname_def head Let_def by simp
qed

subsection \<open>One capture\<close>

lemma runs_append [simp]: "runs (xs @ ys) = runs xs @ runs ys"
  by (induction xs rule: runs.induct) simp_all

lemma trace_note_file [simp]: "trace (note_file filename exists w) = trace w"
  by (simp add: note_file_def split: node.splits)

lemma output_dir_note_file:
  "output_dir w \<noteq> RegularFile \<Longrightarrow> output_dir (note_file filename exists w) \<noteq> RegularFile"
  by (simp add: note_file_def split: node.splits)

lemma take_screenshot_contained:
  assumes "output_dir w \<noteq> RegularFile" and "contained c"
  shows "\<exists>w'. take_screenshot script filename_prefix description t c w =
                 (Inr (if successful c then Some (screenshot_path script filename_prefix t)
                       else None), w') \<and>
               output_dir w' \<noteq> RegularFile \<and>
               runs (trace w') = runs (trace w) @ [capture_command script filename_prefix t]"
proof (cases c)
  case (Returns result)
  with assms(1) show ?thesis
    by (simp add: take_screenshot_def create_screenshots_directory_returns Let_def
          successful_def screenshot_path_def capture_command_def output_dir_note_file)
next
  case (Raises e)
  with assms show ?thesis
    by (cases e)
       (simp_all add: take_screenshot_def create_screenshots_directory_returns Let_def
          successful_def contained_def screenshot_path_def capture_command_def)
qed

lemma take_screenshot_escapes:
  assumes "output_dir w \<noteq> RegularFile" and "\<not> contained (Raises e)"
  shows "fst (take_screenshot script filename_prefix description t (Raises e) w) = Inl e"
  using assms
  by (cases e)
     (simp_all add: take_screenshot_def create_screenshots_directory_returns Let_def
        contained_def)

lemma screenshot_path_nonempty: "screenshot_path script filename_prefix t \<noteq> []"
  by (simp add: screenshot_path_def os_path_join_def startswith_def)

lemma morning_valid: "datetime_valid morning"
  by (simp add: datetime_valid_def morning_def)

lemma wave_sim_no_slash: "CHR ''/'' \<notin> set ''wave_sim''"
  by simp

lemma single_capture_example:
  "fst (take_screenshot script_location ''wave_sim'' None morning
          (Returns \<lparr>returncode = 0, file_exists = True\<rparr>)
          \<lparr>output_dir = Absent, trace = []\<rparr>) =
     Inr (Some ''/Users/dev/WaveSim/WaveSimScreenshots/wave_sim_20240307_090502_001.png'')"
  by code_simp

lemma morning_stamp:
  "zero_pad 4 (year morning) @ zero_pad 2 (month morning) @ zero_pad 2 (day morning) @ ''_'' @
   zero_pad 2 (hour morning) @ zero_pad 2 (minute morning) @ zero_pad 2 (second morning) @
   ''_'' @ zero_pad 3 (microsecond morning div 1000) = ''20240307_090502_001''"
  by code_simp

lemma screenshots_dir_location:
  "os_path_join (get_project_root script_location) ''WaveSimScreenshots'' =
     ''/Users/dev/WaveSim/WaveSimScreenshots''"
  by code_simp

text \<open>
  Claim C6. A successful capture returns a path inside the output directory whose file
  name is the prefix, an underscore, the time stamp and \<^verbatim>\<open>.png\<close>. For a valid time and
  a prefix without a slash (all the prefixes the script passes are such), when
  \<open>take_screenshot\<close> returns a path, the path is the output directory, a slash and the
  file name; its directory part is the output directory and its last part the file name;
  the stamp is the year in four digits, month and day in two, an underscore, hour,
  minute and second in two, an underscore, and the milliseconds (microseconds divided by
  1000) in three: 19 characters, digits and underscores only.
\<close>

theorem screenshot_path_pattern:
  "datetime_valid t \<Longrightarrow> CHR ''/'' \<notin> set filename_prefix \<Longrightarrow>
   fst (take_screenshot script filename_prefix description t run w) = Inr (Some filepath) \<Longrightarrow>
     (let screenshots_dir = os_path_join (get_project_root script) ''WaveSimScreenshots'';
          stamp = zero_pad 4 (year t) @ zero_pad 2 (month t) @ zero_pad 2 (day t) @ ''_'' @
                  zero_pad 2 (hour t) @ zero_pad 2 (minute t) @ zero_pad 2 (second t) @ ''_'' @
                  zero_pad 3 (microsecond t div 1000);
          filename = filename_prefix @ ''_'' @ stamp @ ''.png''
      in filepath = screenshots_dir @ ''/'' @ filename \<and>
         os_path_dirname filepath = screenshots_dir \<and>
         os_path_basename filepath = filename \<and>
         length stamp = 19 \<and>
         set stamp \<subseteq> set ''0123456789_'')"
proof -
  assume valid: "datetime_valid t" and prefix: "CHR ''/'' \<notin> set filename_prefix"
    and ok: "fst (take_screenshot script filename_prefix description t run w) = Inr (Some filepath)"
  let ?dir = "os_path_join (get_project_root script) ''WaveSimScreenshots''"
  let ?name = "filename_prefix @ ''_'' @ timestamp_of t @ ''.png''"
  have w: "output_dir w \<noteq> RegularFile"
  proof
    assume "output_dir w = RegularFile"
    then have "fst (take_screenshot script filename_prefix description t run w) =
                 Inl FileExistsError"
      by (simp add: take_screenshot_def create_screenshots_directory_def os_makedirs_def)
    with ok show False by simp
  qed
  have "contained run"
  proof (rule ccontr)
    assume n: "\<not> contained run"
    then obtain e where "run = Raises e"
      by (cases run) (simp_all add: contained_def)
    with n w ok show False
      using take_screenshot_escapes [of w e script filename_prefix description t] by simp
  qed
  with w obtain w' where
    "take_screenshot script filename_prefix description t run w =
       (Inr (if successful run then Some (screenshot_path script filename_prefix t) else None), w')"
    using take_screenshot_contained [of w run script filename_prefix description t] by blast
  with ok have "filepath = screenshot_path script filename_prefix t"
    by (simp split: if_splits)
  then have path: "filepath = os_path_join ?dir ?name"
    by (simp only: screenshot_path_def)
  from prefix have name: "CHR ''/'' \<notin> set ?name"
    using slash_not_in_timestamp [of t] by simp
  have dir: "?dir \<noteq> []" "last ?dir \<noteq> CHR ''/''"
    by (simp_all add: screenshots_dir_nonempty screenshots_dir_last)
  from dir name have "os_path_join ?dir ?name = ?dir @ ''/'' @ ?name"
    by (rule os_path_join_inside)
  with path have p1: "filepath = ?dir @ ''/'' @ ?name"
    by (rule trans)
  have p2: "os_path_dirname filepath = ?dir"
    unfolding p1 using dir name by (rule os_path_dirname_inside)
  have p3: "os_path_basename filepath = ?name"
    unfolding p1 using name by (rule os_path_basename_inside)
  from valid have p4: "length (timestamp_of t) = 19"
    by (rule length_timestamp_of)
  note p5 = set_timestamp_of [of t]
  from p1 p2 p3 p4 p5 show ?thesis
    unfolding Let_def timestamp_of_fields [symmetric] by (intro conjI)
qed

theorem screenshot_path_pattern_witness:
  "datetime_valid morning \<and> CHR ''/'' \<notin> set ''wave_sim'' \<and>
   fst (take_screenshot script_location ''wave_sim'' None morning
          (Returns \<lparr>returncode = 0, file_exists = True\<rparr>)
          \<lparr>output_dir = Absent, trace = []\<rparr>) =
     Inr (Some ''/Users/dev/WaveSim/WaveSimScreenshots/wave_sim_20240307_090502_001.png'') \<and>
   os_path_dirname ''/Users/dev/WaveSim/WaveSimScreenshots/wave_sim_20240307_090502_001.png'' =
     ''/Users/dev/WaveSim/WaveSimScreenshots'' \<and>
   os_path_basename ''/Users/dev/WaveSim/WaveSimScreenshots/wave_sim_20240307_090502_001.png'' =
     ''wave_sim_20240307_090502_001.png''"
proof -
  note t = screenshot_path_pattern
             [OF morning_valid wave_sim_no_slash single_capture_example,
              unfolded Let_def morning_stamp screenshots_dir_location]
  from t have d:
    "os_path_dirname ''/Users/dev/WaveSim/WaveSimScreenshots/wave_sim_20240307_090502_001.png'' =
       ''/Users/dev/WaveSim/WaveSimScreenshots''"
    by simp
  from t have b:
    "os_path_basename ''/Users/dev/WaveSim/WaveSimScreenshots/wave_sim_20240307_090502_001.png'' =
       ''wave_sim_20240307_090502_001.png''"
    by simp
  from morning_valid wave_sim_no_slash single_capture_example d b show ?thesis
    by (intro conjI)
qed

text \<open>
  Claim C1 fails on the script for an invocation error. \<^verbatim>\<open>subprocess.run\<close> is called
  without \<^verbatim>\<open>check=True\<close>, so it never raises the \<open>CalledProcessError\<close> that the first
  \<^verbatim>\<open>except\<close> clause is written for; what it raises when the capture tool cannot be
  started is an \<^verbatim>\<open>OSError\<close> such as \<open>FileNotFoundError\<close>, which no clause catches. With
  the tool missing, the exception leaves \<open>take_screenshot\<close> instead of \<^verbatim>\<open>None\<close> being
  returned.
\<close>

theorem take_screenshot_invocation_error_escapes:
  "fst (take_screenshot script_location ''wave_sim'' None morning (Raises FileNotFoundError)
          \<lparr>output_dir = Absent, trace = []\<rparr>) = Inl FileNotFoundError"
  by code_simp

end
